theory Spec2Isabelle
  imports Complex_Main
begin

section \<open>The writing session component (src/components/writing.tsx)\<close>

text \<open>
  The component \<^verbatim>\<open>Writing\<close> keeps its state in React state variables and changes it in
  event handlers, in two interval callbacks and in the effect that initialises the
  session timer. The model is explicit state passing: every handler is a function from
  the state before to the state after. \<^verbatim>\<open>Date.now()\<close> is a parameter \<open>now\<close>
  (milliseconds), and the calls of \<^verbatim>\<open>toast\<close> are appended to a log kept beside the
  React state.
\<close>

subsection \<open>Constants (lines 14-16)\<close>

definition DEFAULT_TIMEOUT :: int where
  "DEFAULT_TIMEOUT = 7"

definition MIN_SESSION_TIME :: int where
  "MIN_SESSION_TIME = 5"

definition MAX_SESSION_TIME :: int where
  "MAX_SESSION_TIME = 180"

subsection \<open>State\<close>

text \<open>
  The four notifications the component sends:
  \<^item> \<open>TextDeleted t\<close>: \<^verbatim>\<open>toast.error\<close> of line 41, with \<^verbatim>\<open>timeoutSeconds\<close>;
  \<^item> \<open>SessionStarted t\<close>: \<^verbatim>\<open>toast.success\<close> of line 83, with \<^verbatim>\<open>timeoutSeconds\<close>;
  \<^item> \<open>SessionCompleted\<close>: \<^verbatim>\<open>toast.success\<close> of line 93 (\<^verbatim>\<open>completed\<close> is true);
  \<^item> \<open>SessionEnded\<close>: \<^verbatim>\<open>toast.info\<close> of line 95 (\<^verbatim>\<open>completed\<close> is false).
\<close>

datatype toast = TextDeleted int | SessionStarted int | SessionCompleted | SessionEnded

text \<open>
  The \<^verbatim>\<open>useState\<close> variables of lines 19-25 (\<open>text_value\<close> is \<^verbatim>\<open>text\<close>), and the log
  of notifications. \<^verbatim>\<open>lastKeystroke\<close> is a time in milliseconds; its initial value 0
  is what line 38 reads as "no keystroke yet" (0 is falsy).
\<close>

record state =
  text_value :: string
  isActive :: bool
  sessionTime :: int
  timeRemaining :: int
  lastKeystroke :: int
  showSettings :: bool
  timeoutSeconds :: int
  toasts :: "toast list"

definition initial :: state where
  "initial = \<lparr>text_value = [], isActive = False, sessionTime = 15, timeRemaining = 0,
     lastKeystroke = 0, showSettings = False, timeoutSeconds = DEFAULT_TIMEOUT,
     toasts = []\<rparr>"

subsection \<open>The inactivity check (lines 31-47)\<close>

text \<open>\<^verbatim>\<open>const elapsed = (now - lastKeystroke) / 1000\<close>: a division of numbers, not of integers.\<close>

definition elapsed :: "int \<Rightarrow> state \<Rightarrow> real" where
  "elapsed now s = real_of_int (now - lastKeystroke s) / 1000"

text \<open>The condition of line 38: \<^verbatim>\<open>lastKeystroke && elapsed > timeoutSeconds\<close>.\<close>

definition timedOut :: "int \<Rightarrow> state \<Rightarrow> bool" where
  "timedOut now s = (lastKeystroke s \<noteq> 0 \<and> elapsed now s > real_of_int (timeoutSeconds s))"

definition checkTimeout :: "int \<Rightarrow> state \<Rightarrow> state" where
  "checkTimeout now s =
     (if timedOut now s
      then s\<lparr>text_value := [], toasts := toasts s @ [TextDeleted (timeoutSeconds s)]\<rparr>
      else s)"

subsection \<open>The session timer (lines 50-71)\<close>

text \<open>
  The effect of lines 50-71 runs after a render in which \<^verbatim>\<open>isActive\<close> or
  \<^verbatim>\<open>sessionTime\<close> has changed. It returns at once when the session is not active
  (line 51); otherwise it sets \<^verbatim>\<open>timeRemaining\<close> (line 53) and starts the interval.
  \<open>prev\<close> is the state of the render before.
\<close>

definition sessionTimerEffect :: "state \<Rightarrow> state \<Rightarrow> state" where
  "sessionTimerEffect prev s =
     (if isActive s = isActive prev \<and> sessionTime s = sessionTime prev then s
      else if \<not> isActive s then s
      else s\<lparr>timeRemaining := sessionTime s * 60\<rparr>)"

subsection \<open>The handlers (lines 73-102, 152, 166)\<close>

definition startSession :: "int \<Rightarrow> state \<Rightarrow> state" where
  "startSession now s =
     s\<lparr>isActive := True, lastKeystroke := now, text_value := [],
       toasts := toasts s @ [SessionStarted (timeoutSeconds s)]\<rparr>"

definition endSession :: "bool \<Rightarrow> state \<Rightarrow> state" where
  "endSession completed s =
     s\<lparr>isActive := False,
       toasts := toasts s @ [if completed then SessionCompleted else SessionEnded]\<rparr>"

definition handleTextChange :: "string \<Rightarrow> int \<Rightarrow> state \<Rightarrow> state" where
  "handleTextChange v now s = s\<lparr>text_value := v, lastKeystroke := now\<rparr>"

definition setSessionTime :: "int \<Rightarrow> state \<Rightarrow> state" where
  "setSessionTime v s = s\<lparr>sessionTime := v\<rparr>"

definition setTimeoutSeconds :: "int \<Rightarrow> state \<Rightarrow> state" where
  "setTimeoutSeconds v s = s\<lparr>timeoutSeconds := v\<rparr>"

text \<open>
  The callback of the session interval (lines 56-63): the updater of
  \<^verbatim>\<open>setTimeRemaining\<close>, which calls \<^verbatim>\<open>endSession(true)\<close> and returns 0 when
  \<^verbatim>\<open>prev <= 1\<close>, and returns \<^verbatim>\<open>prev - 1\<close> otherwise.
\<close>

definition sessionTimerCallback :: "state \<Rightarrow> state" where
  "sessionTimerCallback s =
     (if timeRemaining s \<le> 1 then (endSession True s)\<lparr>timeRemaining := 0\<rparr>
      else s\<lparr>timeRemaining := timeRemaining s - 1\<rparr>)"

subsection \<open>The component as a state machine\<close>

text \<open>
  What can happen to the component: a click on a button, a change of the text area or of
  a slider, and a firing of one of the two intervals. Both intervals exist only while
  \<^verbatim>\<open>isActive\<close> holds (the effects return at line 32 and line 51 before
  \<^verbatim>\<open>setInterval\<close>, their clean-ups and line 89 clear the intervals), so a firing in a
  state that is not active does nothing.
\<close>

datatype action =
    Start int
  | End bool
  | EditText string int
  | SetSessionTime int
  | SetTimeoutSeconds int
  | InactivityTick int
  | SessionTick

fun handler :: "action \<Rightarrow> state \<Rightarrow> state" where
  "handler (Start now) s = startSession now s"
| "handler (End completed) s = endSession completed s"
| "handler (EditText v now) s = handleTextChange v now s"
| "handler (SetSessionTime v) s = setSessionTime v s"
| "handler (SetTimeoutSeconds v) s = setTimeoutSeconds v s"
| "handler (InactivityTick now) s = (if isActive s then checkTimeout now s else s)"
| "handler SessionTick s = (if isActive s then sessionTimerCallback s else s)"

text \<open>One step: the handler, then the effect of the render that follows.\<close>

definition react :: "action \<Rightarrow> state \<Rightarrow> state" where
  "react a s = sessionTimerEffect s (handler a s)"

fun run :: "action list \<Rightarrow> state \<Rightarrow> state" where
  "run [] s = s"
| "run (a # as) s = run as (react a s)"

text \<open>
  The two error kinds the specification names. No handler of the source contains a
  \<^verbatim>\<open>throw\<close> or a check of the phase or of the configuration's bounds, so the result of
  every step is a state.
\<close>

datatype error = InvalidStateError | InvalidConfigError

definition perform :: "action \<Rightarrow> state \<Rightarrow> error + state" where
  "perform a s = Inr (react a s)"

fun isTick :: "action \<Rightarrow> bool" where
  "isTick (InactivityTick now) = True"
| "isTick SessionTick = True"
| "isTick a = False"

fun endedToast :: "toast \<Rightarrow> bool" where
  "endedToast SessionCompleted = True"
| "endedToast SessionEnded = True"
| "endedToast t = False"

subsection \<open>The display of the remaining time (lines 104-108)\<close>

text \<open>
  \<^verbatim>\<open>Number.prototype.toString\<close> on an integer (below \<open>10\<^sup>2\<^sup>1\<close> in absolute value, where
  JavaScript switches to the exponent notation): the decimal digits, after a minus sign
  for a negative number.
\<close>

definition digitChar :: "nat \<Rightarrow> char" where
  "digitChar d = char_of (48 + d)"

fun natToString :: "nat \<Rightarrow> string" where
  "natToString n =
     (if n < 10 then [digitChar n] else natToString (n div 10) @ [digitChar (n mod 10)])"

declare natToString.simps [simp del]

definition toString :: "int \<Rightarrow> string" where
  "toString n = (if n < 0 then CHR ''-'' # natToString (nat (- n)) else natToString (nat n))"

text \<open>\<^verbatim>\<open>String.prototype.padStart\<close> with a pad string of one character.\<close>

definition padStart :: "nat \<Rightarrow> char \<Rightarrow> string \<Rightarrow> string" where
  "padStart targetLength c str = replicate (targetLength - length str) c @ str"

text \<open>
  The remainder operator \<^verbatim>\<open>%\<close> of JavaScript takes the sign of the dividend;
  \<^verbatim>\<open>Math.floor(seconds / 60)\<close> rounds towards minus infinity, as \<open>div\<close> on \<open>int\<close> does.
\<close>

definition jsRemainder :: "int \<Rightarrow> int \<Rightarrow> int" where
  "jsRemainder a b = (if a < 0 then - ((- a) mod \<bar>b\<bar>) else a mod \<bar>b\<bar>)"

definition formatTime :: "int \<Rightarrow> string" where
  "formatTime seconds =
     (let minutes = seconds div 60;
          remainingSeconds = jsRemainder seconds 60
      in toString minutes @ '':'' @ padStart 2 (CHR ''0'') (toString remainingSeconds))"

subsection \<open>The specification's words, for comparison with the code\<close>

text \<open>
  The specification's \<open>tick(now)\<close>: the remaining seconds go down by the whole seconds
  elapsed since the previous tick, by 1 at least, and are clamped at 0. Times are in
  milliseconds, as in the code.
\<close>

definition spec_tick_remaining :: "int \<Rightarrow> int \<Rightarrow> int \<Rightarrow> int" where
  "spec_tick_remaining prevTick now remaining =
     max 0 (remaining - max 1 ((now - prevTick) div 1000))"

text \<open>
  Reading a displayed time back: the decimal number before the colon times 60, plus the
  decimal number after it.
\<close>

definition digitValue :: "char \<Rightarrow> nat option" where
  "digitValue c =
     (if 48 \<le> (of_char c :: nat) \<and> (of_char c :: nat) \<le> 57
      then Some (of_char c - 48) else None)"

fun parseDigits :: "nat \<Rightarrow> string \<Rightarrow> nat option" where
  "parseDigits acc [] = Some acc"
| "parseDigits acc (c # cs) =
     (case digitValue c of None \<Rightarrow> None | Some d \<Rightarrow> parseDigits (10 * acc + d) cs)"

definition parseDecimal :: "string \<Rightarrow> nat option" where
  "parseDecimal str = (if str = [] then None else parseDigits 0 str)"

definition parseTime :: "string \<Rightarrow> int option" where
  "parseTime str =
     (case dropWhile (\<lambda>c. c \<noteq> CHR '':'') str of
        [] \<Rightarrow> None
      | _ # secs \<Rightarrow>
          (case parseDecimal (takeWhile (\<lambda>c. c \<noteq> CHR '':'') str) of
             None \<Rightarrow> None
           | Some m \<Rightarrow>
               (case parseDecimal secs of
                  None \<Rightarrow> None
                | Some sec \<Rightarrow> Some (int m * 60 + int sec))))"

subsection \<open>States used as examples\<close>

text \<open>A session started at 1000 ms in which \<open>abc\<close> was typed at 2000 ms.\<close>

definition typing :: state where
  "typing = run [Start 1000, EditText ''abc'' 2000] initial"

section \<open>Properties\<close>

subsection \<open>Helper facts: single steps\<close>

lemmas step_defs = react_def sessionTimerEffect_def startSession_def endSession_def
  handleTextChange_def setSessionTime_def setTimeoutSeconds_def sessionTimerCallback_def
  checkTimeout_def

lemma typing_state:
  "typing = \<lparr>text_value = ''abc'', isActive = True, sessionTime = 15, timeRemaining = 900,
     lastKeystroke = 2000, showSettings = False, timeoutSeconds = 7,
     toasts = [SessionStarted 7]\<rparr>"
  by (simp add: typing_def initial_def react_def sessionTimerEffect_def startSession_def
      handleTextChange_def DEFAULT_TIMEOUT_def)

text \<open>The comparison of line 38 on the millisecond values, without the division.\<close>

lemma timedOut_ms:
  "timedOut now s \<longleftrightarrow> lastKeystroke s \<noteq> 0 \<and> now - lastKeystroke s > 1000 * timeoutSeconds s"
proof -
  have "real_of_int (now - lastKeystroke s) / 1000 > real_of_int (timeoutSeconds s)
        \<longleftrightarrow> real_of_int (now - lastKeystroke s) > real_of_int (1000 * timeoutSeconds s)"
    by (simp add: field_simps)
  also have "\<dots> \<longleftrightarrow> now - lastKeystroke s > 1000 * timeoutSeconds s"
    by (simp only: of_int_less_iff)
  finally show ?thesis
    by (simp add: timedOut_def elapsed_def)
qed

lemma timedOut_later:
  assumes "timedOut now s" and "now \<le> now'"
  shows "timedOut now' s"
  using assms by (simp add: timedOut_ms)

lemma timedOut_after_clear:
  "timedOut now (s\<lparr>text_value := v, toasts := ts\<rparr>) = timedOut now s"
  by (simp add: timedOut_def elapsed_def)

lemma react_InactivityTick:
  "react (InactivityTick now) s =
     (if isActive s \<and> timedOut now s
      then s\<lparr>text_value := [], toasts := toasts s @ [TextDeleted (timeoutSeconds s)]\<rparr>
      else s)"
  by (simp add: step_defs)

lemma react_SessionTick:
  "react SessionTick s =
     (if \<not> isActive s then s
      else if timeRemaining s \<le> 1
      then s\<lparr>isActive := False, timeRemaining := 0, toasts := toasts s @ [SessionCompleted]\<rparr>
      else s\<lparr>timeRemaining := timeRemaining s - 1\<rparr>)"
  by (simp add: step_defs)

subsection \<open>Helper facts: sequences of ticks\<close>

lemma run_append: "run (as @ bs) s = run bs (run as s)"
  by (induction as arbitrary: s) simp_all

lemma react_tick_timeRemaining:
  assumes "isTick a" and "0 \<le> timeRemaining s"
  shows "0 \<le> timeRemaining (react a s) \<and> timeRemaining (react a s) \<le> timeRemaining s
       \<and> sessionTime (react a s) = sessionTime s"
  using assms
  by (cases a)
    (simp_all add: react_def sessionTimerEffect_def sessionTimerCallback_def checkTimeout_def
      endSession_def)

lemma run_ticks_timeRemaining:
  assumes "list_all isTick as" and "0 \<le> timeRemaining s"
  shows "0 \<le> timeRemaining (run as s) \<and> timeRemaining (run as s) \<le> timeRemaining s
       \<and> sessionTime (run as s) = sessionTime s"
  using assms
proof (induction as arbitrary: s)
  case Nil
  then show ?case by simp
next
  case (Cons a as)
  from Cons.prems have a: "isTick a" and as: "list_all isTick as"
    by simp_all
  note step = react_tick_timeRemaining [OF a Cons.prems(2)]
  from step have "0 \<le> timeRemaining (react a s)"
    by simp
  from Cons.IH [OF as this] step show ?case
    by simp
qed

text \<open>Ticks change neither the time of the last keystroke nor the timeout.\<close>

lemma react_tick_keeps_keystroke:
  assumes "isTick a"
  shows "lastKeystroke (react a s) = lastKeystroke s
       \<and> timeoutSeconds (react a s) = timeoutSeconds s"
  using assms
  by (cases a)
    (simp_all add: react_def sessionTimerEffect_def sessionTimerCallback_def checkTimeout_def
      endSession_def)

lemma run_ticks_keep_keystroke:
  assumes "list_all isTick as"
  shows "lastKeystroke (run as s) = lastKeystroke s
       \<and> timeoutSeconds (run as s) = timeoutSeconds s"
  using assms
proof (induction as arbitrary: s)
  case Nil
  then show ?case by simp
next
  case (Cons a as)
  from Cons.prems have a: "isTick a" and as: "list_all isTick as"
    by simp_all
  from Cons.IH [OF as, of "react a s"] react_tick_keeps_keystroke [OF a, of s] show ?case
    by simp
qed

lemma timedOut_same_keystroke:
  assumes "lastKeystroke t = lastKeystroke s" and "timeoutSeconds t = timeoutSeconds s"
  shows "timedOut now t = timedOut now s"
  using assms by (simp add: timedOut_def elapsed_def)

text \<open>
  A start from a state that is not active, with a session length that is not negative,
  establishes the bounds the ticks then keep.
\<close>

lemma start_establishes_bounds:
  assumes "\<not> isActive s" and "0 \<le> sessionTime s"
  shows "0 \<le> timeRemaining (react (Start now) s)
       \<and> timeRemaining (react (Start now) s) \<le> sessionTime (react (Start now) s) * 60"
  using assms by (simp add: react_def sessionTimerEffect_def startSession_def)

subsection \<open>Helper facts: decimal digits\<close>

lemma digitChar_0: "digitChar 0 = CHR ''0''"
  unfolding digitChar_def by code_simp

lemma of_char_digitChar: "d < 10 \<Longrightarrow> (of_char (digitChar d) :: nat) = 48 + d"
  by (simp add: digitChar_def)

lemma digitValue_digitChar: "d < 10 \<Longrightarrow> digitValue (digitChar d) = Some d"
  by (simp add: digitValue_def of_char_digitChar)

lemma digitChar_not_colon: "d < 10 \<Longrightarrow> digitChar d \<noteq> CHR '':''"
proof
  assume "d < 10" and "digitChar d = CHR '':''"
  then have "(of_char (digitChar d) :: nat) = of_char (CHR '':'')"
    by simp
  with \<open>d < 10\<close> show False
    by (simp add: of_char_digitChar)
qed

lemma parseDigits_append:
  "parseDigits acc (xs @ ys) =
     (case parseDigits acc xs of None \<Rightarrow> None | Some a \<Rightarrow> parseDigits a ys)"
  by (induction xs arbitrary: acc) (auto split: option.splits)

lemma parseDigits_natToString: "parseDigits 0 (natToString n) = Some n"
proof (induction n rule: natToString.induct)
  case (1 n)
  show ?case
  proof (cases "n < 10")
    case True
    then show ?thesis
      by (simp add: natToString.simps [of n] digitValue_digitChar)
  next
    case False
    with "1" have "parseDigits 0 (natToString (n div 10)) = Some (n div 10)"
      by simp
    with False show ?thesis
      by (simp add: natToString.simps [of n] parseDigits_append digitValue_digitChar)
  qed
qed

lemma natToString_nonempty: "natToString n \<noteq> []"
  by (simp add: natToString.simps [of n])

lemma natToString_no_colon: "CHR '':'' \<notin> set (natToString n)"
proof (induction n rule: natToString.induct)
  case (1 n)
  show ?case
  proof (cases "n < 10")
    case True
    then show ?thesis
      using digitChar_not_colon [of n] by (auto simp add: natToString.simps [of n])
  next
    case False
    with "1" have "CHR '':'' \<notin> set (natToString (n div 10))"
      by simp
    with False show ?thesis
      using digitChar_not_colon [of "n mod 10"] by (auto simp add: natToString.simps [of n])
  qed
qed

lemma parseDecimal_natToString: "parseDecimal (natToString n) = Some n"
  by (simp add: parseDecimal_def natToString_nonempty parseDigits_natToString)

lemma padStart_seconds:
  assumes "r < 60"
  shows "padStart 2 (CHR ''0'') (natToString r) = [digitChar (r div 10), digitChar (r mod 10)]"
proof (cases "r < 10")
  case True
  then show ?thesis
    by (simp add: padStart_def natToString.simps [of r] digitChar_0)
next
  case False
  with assms have "r div 10 < 10"
    by simp
  with False show ?thesis
    by (simp add: padStart_def natToString.simps [of r] natToString.simps [of "r div 10"])
qed

lemma parseDecimal_two_digits:
  "a < 10 \<Longrightarrow> b < 10 \<Longrightarrow> parseDecimal [digitChar a, digitChar b] = Some (10 * a + b)"
  by (simp add: parseDecimal_def digitValue_digitChar)

lemma parseTime_colon:
  assumes "CHR '':'' \<notin> set ms"
  shows "parseTime (ms @ '':'' @ ss) =
     (case parseDecimal ms of None \<Rightarrow> None
      | Some m \<Rightarrow> (case parseDecimal ss of None \<Rightarrow> None
          | Some sec \<Rightarrow> Some (int m * 60 + int sec)))"
proof -
  have "takeWhile (\<lambda>c. c \<noteq> CHR '':'') (ms @ '':'' @ ss) = ms"
    using assms by (induction ms) auto
  moreover have "dropWhile (\<lambda>c. c \<noteq> CHR '':'') (ms @ '':'' @ ss) = '':'' @ ss"
    using assms by (induction ms) auto
  ultimately show ?thesis
    by (simp add: parseTime_def)
qed

lemma formatTime_nonneg:
  assumes "0 \<le> s"
  shows "formatTime s = natToString (nat (s div 60)) @ '':'' @
           [digitChar (nat (s mod 60) div 10), digitChar (nat (s mod 60) mod 10)]"
proof -
  have "\<not> s div 60 < 0" and "\<not> s mod 60 < 0" and "nat (s mod 60) < 60"
    using assms by (simp_all add: not_less pos_imp_zdiv_nonneg_iff)
  then show ?thesis
    using assms
    by (simp add: formatTime_def Let_def toString_def jsRemainder_def padStart_seconds)
qed

lemma formatTime_899: "formatTime 899 = ''14:59''"
  by code_simp

section \<open>The claims\<close>

subsection \<open>C1: what an inactivity expiry does\<close>

text \<open>
  Claim C1, as amended. When the inactivity check fires while the session is active
  (more than \<open>timeoutSeconds\<close> seconds since \<open>lastKeystroke\<close>), it clears the text and
  sends the notification, and it changes nothing else: the session stays active and
  \<open>lastKeystroke\<close> keeps its value, it is not reset to the time of the tick.
  Consequently a later check signals the erasure again, also before a new window of
  \<open>timeoutSeconds\<close> has passed since the first one: after any run \<open>as\<close> of ticks of the
  two intervals (no edit, no start, no change of the settings) that leaves the session
  active, \<open>lastKeystroke\<close> is still what it was, and the check at any time
  \<open>now' \<ge> now\<close> clears the text and sends the notification once more.
\<close>

theorem expiry_clears_text_keeps_lastKeystroke:
  assumes "isActive s" and "timedOut now s"
    and "list_all isTick as" and "isActive (run as (react (InactivityTick now) s))"
    and "now \<le> now'"
  shows "react (InactivityTick now) s =
           s\<lparr>text_value := [], toasts := toasts s @ [TextDeleted (timeoutSeconds s)]\<rparr>
       \<and> text_value (react (InactivityTick now) s) = []
       \<and> lastKeystroke (react (InactivityTick now) s) = lastKeystroke s
       \<and> isActive (react (InactivityTick now) s)
       \<and> lastKeystroke (run as (react (InactivityTick now) s)) = lastKeystroke s
       \<and> timedOut now' (run as (react (InactivityTick now) s))
       \<and> react (InactivityTick now') (run as (react (InactivityTick now) s)) =
           (run as (react (InactivityTick now) s))
             \<lparr>text_value := [],
              toasts := toasts (run as (react (InactivityTick now) s))
                        @ [TextDeleted (timeoutSeconds s)]\<rparr>"
proof -
  let ?s1 = "react (InactivityTick now) s"
  let ?s2 = "run as ?s1"
  have first: "?s1 = s\<lparr>text_value := [], toasts := toasts s @ [TextDeleted (timeoutSeconds s)]\<rparr>"
    using assms(1,2) by (simp add: react_InactivityTick)
  have keep1: "lastKeystroke ?s1 = lastKeystroke s \<and> timeoutSeconds ?s1 = timeoutSeconds s"
    by (rule react_tick_keeps_keystroke) simp
  have keep2: "lastKeystroke ?s2 = lastKeystroke ?s1 \<and> timeoutSeconds ?s2 = timeoutSeconds ?s1"
    using assms(3) by (rule run_ticks_keep_keystroke)
  from keep1 keep2 have keep: "lastKeystroke ?s2 = lastKeystroke s"
    "timeoutSeconds ?s2 = timeoutSeconds s"
    by simp_all
  have "timedOut now' s"
    using assms(2,5) by (rule timedOut_later)
  with keep have later: "timedOut now' ?s2"
    by (simp add: timedOut_same_keystroke [of ?s2 s])
  have again: "react (InactivityTick now') ?s2 =
      ?s2\<lparr>text_value := [], toasts := toasts ?s2 @ [TextDeleted (timeoutSeconds s)]\<rparr>"
    using assms(4) later keep(2) by (simp add: react_InactivityTick [of now' ?s2])
  have "text_value ?s1 = []" and "isActive ?s1"
    using assms(1) by (simp_all add: first)
  with first keep1 keep(1) later again show ?thesis
    by (intro conjI) simp_all
qed

theorem expiry_clears_text_witness:
  "isActive typing \<and> timedOut 10000 typing \<and> list_all isTick [SessionTick]
   \<and> isActive (run [SessionTick] (react (InactivityTick 10000) typing))
   \<and> text_value (react (InactivityTick 10000) typing) = []
   \<and> lastKeystroke (react (InactivityTick 10000) typing) = lastKeystroke typing
   \<and> isActive (react (InactivityTick 10000) typing)
   \<and> lastKeystroke (run [SessionTick] (react (InactivityTick 10000) typing)) =
        lastKeystroke typing
   \<and> timedOut 11000 (run [SessionTick] (react (InactivityTick 10000) typing))
   \<and> react (InactivityTick 11000) (run [SessionTick] (react (InactivityTick 10000) typing)) =
        (run [SessionTick] (react (InactivityTick 10000) typing))
          \<lparr>text_value := [],
           toasts := toasts (run [SessionTick] (react (InactivityTick 10000) typing))
                     @ [TextDeleted (timeoutSeconds typing)]\<rparr>"
proof -
  have a: "isActive typing"
    by (simp add: typing_state)
  have b: "timedOut 10000 typing"
    by (simp add: timedOut_ms typing_state)
  have c: "list_all isTick [SessionTick]"
    by simp
  have d: "isActive (run [SessionTick] (react (InactivityTick 10000) typing))"
    by (simp add: react_InactivityTick react_SessionTick timedOut_ms typing_state)
  have e: "(10000::int) \<le> 11000"
    by simp
  show ?thesis
    using expiry_clears_text_keeps_lastKeystroke [OF a b c d e] a b c d by blast
qed

text \<open>
  The claim as stated fails. The last keystroke is at 2000 ms and the timeout is 7 s.
  The check at 10000 ms fires and leaves \<open>lastKeystroke\<close> at 2000, not at 10000; the
  check one second later, at 11000 ms, fires again, although no new window of 7 s has
  passed since the first erasure. It does so when it is the very next event, and also
  when the session timer ticks in between, as it does in the running component.
\<close>

theorem expiry_not_consumed_counterexample:
  "isActive typing \<and> timedOut 10000 typing
   \<and> lastKeystroke (react (InactivityTick 10000) typing) = 2000
   \<and> lastKeystroke (react (InactivityTick 10000) typing) \<noteq> 10000
   \<and> toasts (run [InactivityTick 10000, InactivityTick 11000] typing) =
        [SessionStarted 7, TextDeleted 7, TextDeleted 7]
   \<and> toasts (run [InactivityTick 10000, SessionTick, InactivityTick 11000] typing) =
        [SessionStarted 7, TextDeleted 7, TextDeleted 7]"
  by (simp add: react_InactivityTick react_SessionTick timedOut_after_clear timedOut_ms
      typing_state)

subsection \<open>C2: one tick of the session timer\<close>

text \<open>
  Claim C2, as amended. A tick of the session timer while the session is active lowers
  \<open>timeRemaining\<close> by exactly 1 when it is above 1, whatever time has passed since the
  tick before (the callback reads no clock); when \<open>timeRemaining\<close> is 1 or less the tick
  sets it to 0 and calls \<open>endSession(true)\<close>. In a state that is not active a tick of
  either interval changes nothing.
\<close>

theorem session_tick_decrements_by_one:
  "(isActive s \<and> 1 < timeRemaining s \<longrightarrow>
      react SessionTick s = s\<lparr>timeRemaining := timeRemaining s - 1\<rparr>)
   \<and> (isActive s \<and> timeRemaining s \<le> 1 \<longrightarrow>
      react SessionTick s = (endSession True s)\<lparr>timeRemaining := 0\<rparr>
      \<and> timeRemaining (react SessionTick s) = 0
      \<and> \<not> isActive (react SessionTick s)
      \<and> toasts (react SessionTick s) = toasts s @ [SessionCompleted])
   \<and> (\<not> isActive s \<longrightarrow> react SessionTick s = s \<and> react (InactivityTick now) s = s)"
  by (simp add: react_SessionTick react_InactivityTick endSession_def)

theorem session_tick_witness:
  "isActive typing \<and> 1 < timeRemaining typing
   \<and> react SessionTick typing = typing\<lparr>timeRemaining := timeRemaining typing - 1\<rparr>
   \<and> isActive (typing\<lparr>timeRemaining := 1\<rparr>) \<and> timeRemaining (typing\<lparr>timeRemaining := 1\<rparr>) \<le> 1
   \<and> timeRemaining (react SessionTick (typing\<lparr>timeRemaining := 1\<rparr>)) = 0
   \<and> \<not> isActive (react SessionTick (typing\<lparr>timeRemaining := 1\<rparr>))
   \<and> \<not> isActive initial \<and> react SessionTick initial = initial
   \<and> react (InactivityTick 5000) initial = initial"
proof -
  have a: "isActive typing \<and> 1 < timeRemaining typing"
    by (simp add: typing_state)
  have b: "isActive (typing\<lparr>timeRemaining := 1\<rparr>) \<and> timeRemaining (typing\<lparr>timeRemaining := 1\<rparr>) \<le> 1"
    by (simp add: typing_state)
  have c: "\<not> isActive initial"
    by (simp add: initial_def)
  show ?thesis
    using session_tick_decrements_by_one [of typing]
      session_tick_decrements_by_one [of "typing\<lparr>timeRemaining := 1\<rparr>"]
      session_tick_decrements_by_one [of initial 5000] a b c
    by blast
qed

text \<open>
  The claim as stated fails. With 900 s remaining, a tick that comes 3000 ms after the
  tick before (at 5000 ms after 2000 ms) leaves 899 s in the code; the decrement by the
  elapsed whole seconds gives 897 s.
\<close>

theorem session_tick_elapsed_counterexample:
  "isActive typing \<and> timeRemaining typing = 900
   \<and> timeRemaining (react SessionTick typing) = 899
   \<and> spec_tick_remaining 2000 5000 (timeRemaining typing) = 897
   \<and> timeRemaining (react SessionTick typing) \<noteq>
       spec_tick_remaining 2000 5000 (timeRemaining typing)"
  by (simp add: react_SessionTick typing_state spec_tick_remaining_def)

subsection \<open>C3: ending twice\<close>

text \<open>
  Claim C3, as amended. Two calls of \<open>endSession\<close> in a row, with no start between
  them, both return without an error. After the first the session is not active, and
  the second changes no state variable: the session stays not active, and the text,
  the remaining time, the time of the last keystroke and the settings are what they
  were. But \<open>endSession\<close> has no check of the phase and notifies on every call, so the
  two calls send two session-ended notifications, not one.
\<close>

theorem end_twice_two_notifications:
  "\<exists>s1 s2. perform (End c1) s = Inr s1 \<and> perform (End c2) s1 = Inr s2
     \<and> \<not> isActive s1 \<and> \<not> isActive s2
     \<and> text_value s2 = text_value s1 \<and> timeRemaining s2 = timeRemaining s1
     \<and> lastKeystroke s2 = lastKeystroke s1 \<and> sessionTime s2 = sessionTime s1
     \<and> timeoutSeconds s2 = timeoutSeconds s1 \<and> showSettings s2 = showSettings s1
     \<and> s2 = s1\<lparr>toasts := toasts s1 @ [if c2 then SessionCompleted else SessionEnded]\<rparr>
     \<and> toasts s2 = toasts s @ [if c1 then SessionCompleted else SessionEnded,
                                if c2 then SessionCompleted else SessionEnded]
     \<and> length (filter endedToast (toasts s2)) = length (filter endedToast (toasts s)) + 2"
  by (simp add: perform_def step_defs)

theorem end_twice_witness:
  "isActive typing
   \<and> \<not> isActive (react (End True) typing)
   \<and> \<not> isActive (react (End False) (react (End True) typing))
   \<and> text_value (react (End False) (react (End True) typing)) =
        text_value (react (End True) typing)
   \<and> timeRemaining (react (End False) (react (End True) typing)) =
        timeRemaining (react (End True) typing)
   \<and> toasts (react (End False) (react (End True) typing)) =
        toasts typing @ [SessionCompleted, SessionEnded]
   \<and> length (filter endedToast (toasts (react (End False) (react (End True) typing)))) =
        length (filter endedToast (toasts typing)) + 2"
proof -
  have a: "isActive typing"
    by (simp add: typing_state)
  show ?thesis
    using end_twice_two_notifications [of True typing False] a
    by (auto simp add: perform_def)
qed

text \<open>
  The claim as stated fails. Ending the session twice by the button sends the
  notification of line 95 twice, although the session is already not active at the
  second call, and the second call is not without effect: the log of notifications
  after it differs.
\<close>

theorem end_twice_counterexample:
  "length (filter endedToast (toasts typing)) = 0
   \<and> \<not> isActive (react (End False) typing)
   \<and> length (filter endedToast (toasts (run [End False, End False] typing))) = 2
   \<and> perform (End False) (react (End False) typing) \<noteq> Inl InvalidStateError
   \<and> react (End False) (react (End False) typing) \<noteq> react (End False) typing"
  by (simp add: perform_def step_defs typing_state)

subsection \<open>C4: the remaining time under ticks\<close>

text \<open>
  Claim C4. From a state in which \<open>0 \<le> timeRemaining \<le> sessionTime * 60\<close>, as a start
  establishes it, every sequence of ticks (of the session timer and of the inactivity
  check, in any order) keeps \<open>timeRemaining\<close> between 0 and \<open>sessionTime * 60\<close>, and
  \<open>timeRemaining\<close> never goes up along the sequence: after the ticks \<open>as\<close> and then the
  ticks \<open>bs\<close> it is at most what it was after \<open>as\<close>.
\<close>

theorem ticks_timeRemaining_bounded_nonincreasing:
  assumes "list_all isTick as" and "list_all isTick bs"
    and "0 \<le> timeRemaining s" and "timeRemaining s \<le> sessionTime s * 60"
  shows "0 \<le> timeRemaining (run (as @ bs) s)
       \<and> timeRemaining (run (as @ bs) s) \<le> timeRemaining (run as s)
       \<and> timeRemaining (run as s) \<le> sessionTime (run as s) * 60
       \<and> sessionTime (run as s) = sessionTime s"
proof -
  note first = run_ticks_timeRemaining [OF assms(1) assms(3)]
  from first have "0 \<le> timeRemaining (run as s)"
    by simp
  note second = run_ticks_timeRemaining [OF assms(2) this]
  from first second assms(4) show ?thesis
    by (simp add: run_append)
qed

theorem ticks_timeRemaining_witness:
  "list_all isTick [SessionTick, InactivityTick 10000] \<and> list_all isTick [SessionTick]
   \<and> 0 \<le> timeRemaining (react (Start 1000) initial)
   \<and> timeRemaining (react (Start 1000) initial) \<le> sessionTime (react (Start 1000) initial) * 60
   \<and> 0 \<le> timeRemaining
        (run ([SessionTick, InactivityTick 10000] @ [SessionTick]) (react (Start 1000) initial))
   \<and> timeRemaining
        (run ([SessionTick, InactivityTick 10000] @ [SessionTick]) (react (Start 1000) initial))
      \<le> timeRemaining (run [SessionTick, InactivityTick 10000] (react (Start 1000) initial))
   \<and> timeRemaining (run [SessionTick, InactivityTick 10000] (react (Start 1000) initial))
      \<le> sessionTime (run [SessionTick, InactivityTick 10000] (react (Start 1000) initial)) * 60"
proof -
  have a: "list_all isTick [SessionTick, InactivityTick 10000]"
    by simp
  have b: "list_all isTick [SessionTick]"
    by simp
  have "\<not> isActive initial" and "0 \<le> sessionTime initial"
    by (simp_all add: initial_def)
  then have c: "0 \<le> timeRemaining (react (Start 1000) initial)
      \<and> timeRemaining (react (Start 1000) initial) \<le> sessionTime (react (Start 1000) initial) * 60"
    by (rule start_establishes_bounds)
  show ?thesis
    using ticks_timeRemaining_bounded_nonincreasing [OF a b conjunct1 [OF c] conjunct2 [OF c]] a b c
    by blast
qed

subsection \<open>C5: the expiry condition\<close>

text \<open>
  Claim C5. The inactivity check fires if and only if \<open>lastKeystroke\<close> is set (not 0)
  and the seconds elapsed since it, \<open>(now - lastKeystroke) / 1000\<close>, are strictly more
  than \<open>timeoutSeconds\<close>. It does not fire when the elapsed time equals the timeout
  exactly, it fires when the elapsed time is the timeout plus one second, and it never
  fires while \<open>lastKeystroke\<close> is unset. Firing is what sends the notification.
\<close>

theorem timedOut_strict:
  "(timedOut now s \<longleftrightarrow> lastKeystroke s \<noteq> 0 \<and> elapsed now s > real_of_int (timeoutSeconds s))
   \<and> (elapsed now s = real_of_int (timeoutSeconds s) \<longrightarrow> \<not> timedOut now s)
   \<and> (lastKeystroke s \<noteq> 0 \<and> elapsed now s = real_of_int (timeoutSeconds s) + 1
        \<longrightarrow> timedOut now s)
   \<and> (lastKeystroke s = 0 \<longrightarrow> \<not> timedOut now s)
   \<and> (now - lastKeystroke s = 1000 * timeoutSeconds s \<longrightarrow> \<not> timedOut now s)
   \<and> (lastKeystroke s \<noteq> 0 \<and> now - lastKeystroke s = 1000 * (timeoutSeconds s + 1)
        \<longrightarrow> timedOut now s)
   \<and> (timedOut now s \<longleftrightarrow>
        toasts (checkTimeout now s) = toasts s @ [TextDeleted (timeoutSeconds s)])"
proof -
  have "now - lastKeystroke s = 1000 * timeoutSeconds s \<longrightarrow> \<not> timedOut now s"
    by (simp add: timedOut_ms)
  moreover have "lastKeystroke s \<noteq> 0 \<and> now - lastKeystroke s = 1000 * (timeoutSeconds s + 1)
      \<longrightarrow> timedOut now s"
    by (simp add: timedOut_ms)
  ultimately show ?thesis
    by (simp add: timedOut_def checkTimeout_def)
qed

theorem timedOut_strict_witness:
  "elapsed 9000 typing = real_of_int (timeoutSeconds typing) \<and> \<not> timedOut 9000 typing
   \<and> lastKeystroke typing \<noteq> 0
   \<and> elapsed 10000 typing = real_of_int (timeoutSeconds typing) + 1 \<and> timedOut 10000 typing
   \<and> lastKeystroke initial = 0 \<and> \<not> timedOut 5000 initial"
proof -
  have a: "elapsed 9000 typing = real_of_int (timeoutSeconds typing)"
    by (simp add: elapsed_def typing_state)
  have b: "lastKeystroke typing \<noteq> 0"
    by (simp add: typing_state)
  have c: "elapsed 10000 typing = real_of_int (timeoutSeconds typing) + 1"
    by (simp add: elapsed_def typing_state)
  have d: "lastKeystroke initial = 0"
    by (simp add: initial_def)
  show ?thesis
    using timedOut_strict [of 9000 typing] timedOut_strict [of 10000 typing]
      timedOut_strict [of 5000 initial] a b c d
    by blast
qed

subsection \<open>C6: starting a session\<close>

text \<open>
  Claim C6, as amended. \<open>startSession\<close> has no check of the phase and never fails, also
  not in an active session: in every state it returns a state that is active, with an
  empty text and \<open>lastKeystroke = now\<close>, and sends the notification. When the session
  was not active before, \<open>timeRemaining\<close> becomes \<open>sessionTime * 60\<close>; when it was
  already active, \<open>timeRemaining\<close> keeps its value.
\<close>

theorem start_never_fails:
  "\<exists>s'. perform (Start now) s = Inr s' \<and> isActive s' \<and> text_value s' = []
     \<and> lastKeystroke s' = now
     \<and> toasts s' = toasts s @ [SessionStarted (timeoutSeconds s)]
     \<and> (\<not> isActive s \<longrightarrow> timeRemaining s' = sessionTime s * 60)
     \<and> (isActive s \<longrightarrow> timeRemaining s' = timeRemaining s)"
  by (simp add: perform_def step_defs)

theorem start_witness:
  "\<not> isActive initial \<and> perform (Start 1000) initial = Inr (react (Start 1000) initial)
   \<and> isActive (react (Start 1000) initial)
   \<and> timeRemaining (react (Start 1000) initial) = sessionTime initial * 60
   \<and> text_value (react (Start 1000) initial) = []
   \<and> lastKeystroke (react (Start 1000) initial) = 1000
   \<and> isActive typing \<and> timeRemaining (react (Start 5000) typing) = timeRemaining typing"
proof -
  have a: "\<not> isActive initial"
    by (simp add: initial_def)
  have b: "isActive typing"
    by (simp add: typing_state)
  show ?thesis
    using start_never_fails [of 1000 initial] start_never_fails [of 5000 typing] a b
    by (auto simp add: perform_def)
qed

text \<open>
  The claim as stated fails. A start at 5000 ms in the active session does not fail with
  \<open>InvalidStateError\<close>: it returns the state with the text cleared, \<open>lastKeystroke\<close> at
  5000 and a second notification of a started session.
\<close>

theorem start_while_active_counterexample:
  "isActive typing \<and> perform (Start 5000) typing \<noteq> Inl InvalidStateError
   \<and> perform (Start 5000) typing =
       Inr (typing\<lparr>lastKeystroke := 5000, text_value := [],
              toasts := [SessionStarted 7, SessionStarted 7]\<rparr>)"
  by (simp add: perform_def step_defs typing_state)

subsection \<open>C7: editing the text\<close>

text \<open>
  Claim C7, as amended. \<open>handleTextChange\<close> has no check of the phase and never fails:
  in every state, active or not, it sets the text to the new text and \<open>lastKeystroke\<close>
  to \<open>now\<close>, and changes nothing else.
\<close>

theorem editText_never_fails:
  "perform (EditText v now) s = Inr (s\<lparr>text_value := v, lastKeystroke := now\<rparr>)"
  by (simp add: perform_def step_defs)

theorem editText_witness:
  "perform (EditText ''abcd'' 3000) typing =
     Inr (typing\<lparr>text_value := ''abcd'', lastKeystroke := 3000\<rparr>)"
  by (rule editText_never_fails)

text \<open>
  The claim as stated fails. In the initial state, which is not active, an edit does not
  fail with \<open>InvalidStateError\<close> and does not leave the state as it was: the text and
  \<open>lastKeystroke\<close> are set.
\<close>

theorem editText_inactive_counterexample:
  "\<not> isActive initial
   \<and> perform (EditText ''abc'' 5000) initial \<noteq> Inl InvalidStateError
   \<and> perform (EditText ''abc'' 5000) initial \<noteq> Inr initial
   \<and> perform (EditText ''abc'' 5000) initial =
       Inr (initial\<lparr>text_value := ''abc'', lastKeystroke := 5000\<rparr>)"
  by (simp add: perform_def step_defs initial_def)

subsection \<open>C8: ending a session keeps the text\<close>

text \<open>
  Claim C8. Ending a session leaves the text as it is and makes the session not active,
  both when \<open>endSession\<close> is called by the button (or with any value of \<open>completed\<close>) and
  when the session timer reaches zero, which calls \<open>endSession(true)\<close>. A tick of the
  session timer never changes the text.
\<close>

theorem ending_preserves_text:
  "text_value (react (End completed) s) = text_value s
   \<and> \<not> isActive (react (End completed) s)
   \<and> text_value (react SessionTick s) = text_value s
   \<and> (isActive s \<and> timeRemaining s \<le> 1 \<longrightarrow>
        \<not> isActive (react SessionTick s)
        \<and> toasts (react SessionTick s) = toasts s @ [SessionCompleted])"
  by (simp add: step_defs)

theorem ending_preserves_text_witness:
  "isActive (typing\<lparr>timeRemaining := 1\<rparr>) \<and> timeRemaining (typing\<lparr>timeRemaining := 1\<rparr>) \<le> 1
   \<and> text_value (react SessionTick (typing\<lparr>timeRemaining := 1\<rparr>)) = ''abc''
   \<and> \<not> isActive (react SessionTick (typing\<lparr>timeRemaining := 1\<rparr>))
   \<and> text_value (react (End False) typing) = ''abc''
   \<and> \<not> isActive (react (End False) typing)"
proof -
  have a: "isActive (typing\<lparr>timeRemaining := 1\<rparr>) \<and> timeRemaining (typing\<lparr>timeRemaining := 1\<rparr>) \<le> 1"
    by (simp add: typing_state)
  have b: "text_value (typing\<lparr>timeRemaining := 1\<rparr>) = ''abc'' \<and> text_value typing = ''abc''"
    by (simp add: typing_state)
  show ?thesis
    using ending_preserves_text [of False typing]
      ending_preserves_text [of False "typing\<lparr>timeRemaining := 1\<rparr>"] a b
    by metis
qed

subsection \<open>C9: changing the settings\<close>

text \<open>
  Claim C9, as amended. The handlers of the two sliders have no check of the phase and
  none of the bounds, and never fail: in every state and for every value, inside or
  outside \<open>[5, 180]\<close> minutes and \<open>[3, 15]\<close> seconds, the new session length and the new
  timeout are stored. A new session length given in an active session also restarts
  \<open>timeRemaining\<close> at the new length.
\<close>

theorem configure_never_fails:
  "perform (SetSessionTime v) s =
     Inr (if isActive s \<and> v \<noteq> sessionTime s
          then s\<lparr>sessionTime := v, timeRemaining := v * 60\<rparr>
          else s\<lparr>sessionTime := v\<rparr>)
   \<and> perform (SetTimeoutSeconds w) s = Inr (s\<lparr>timeoutSeconds := w\<rparr>)"
  by (simp add: perform_def step_defs)

theorem configure_witness:
  "perform (SetSessionTime 30) initial = Inr (initial\<lparr>sessionTime := 30\<rparr>)
   \<and> perform (SetTimeoutSeconds 10) initial = Inr (initial\<lparr>timeoutSeconds := 10\<rparr>)"
  using configure_never_fails [of 30 initial 10]
  by (simp add: initial_def)

text \<open>
  The claim as stated fails. In the active session a new session length of 30 minutes
  is stored, with no \<open>InvalidStateError\<close>; in the initial state a session length of 1000
  minutes and a timeout of 100 seconds, both out of bounds, are stored, with no
  \<open>InvalidConfigError\<close>.
\<close>

theorem configure_counterexample:
  "isActive typing
   \<and> perform (SetSessionTime 30) typing \<noteq> Inl InvalidStateError
   \<and> perform (SetSessionTime 30) typing =
       Inr (typing\<lparr>sessionTime := 30, timeRemaining := 1800\<rparr>)
   \<and> \<not> isActive initial \<and> MAX_SESSION_TIME < 1000
   \<and> perform (SetSessionTime 1000) initial \<noteq> Inl InvalidConfigError
   \<and> perform (SetSessionTime 1000) initial = Inr (initial\<lparr>sessionTime := 1000\<rparr>)
   \<and> perform (SetTimeoutSeconds 100) initial = Inr (initial\<lparr>timeoutSeconds := 100\<rparr>)"
  by (simp add: perform_def step_defs typing_state initial_def MAX_SESSION_TIME_def)

subsection \<open>C10: the displayed time\<close>

text \<open>
  Claim C10. For every \<open>s \<ge> 0\<close>, \<open>formatTime s\<close> is the decimal representation of
  \<open>s div 60\<close>, a colon, and exactly two decimal digits, the tens and the units of
  \<open>s mod 60\<close>; the part before the colon reads back as \<open>s div 60\<close>, the part after it as
  \<open>s mod 60\<close>, and the whole string reads back as \<open>s\<close>: minutes times 60 plus seconds.
\<close>

theorem formatTime_minutes_colon_seconds:
  assumes "0 \<le> s"
  shows "formatTime s = toString (s div 60) @ '':'' @
           [digitChar (nat (s mod 60) div 10), digitChar (nat (s mod 60) mod 10)]
       \<and> parseDecimal (toString (s div 60)) = Some (nat (s div 60))
       \<and> parseDecimal [digitChar (nat (s mod 60) div 10), digitChar (nat (s mod 60) mod 10)]
           = Some (nat (s mod 60))
       \<and> parseTime (formatTime s) = Some s"
proof -
  let ?m = "nat (s div 60)" and ?r = "nat (s mod 60)"
  have m: "0 \<le> s div 60"
    using assms by (simp add: pos_imp_zdiv_nonneg_iff)
  then have ts: "toString (s div 60) = natToString ?m"
    by (simp add: toString_def)
  have r: "?r < 60" "?r div 10 < 10" "?r mod 10 < 10"
    by simp_all
  have sec: "parseDecimal [digitChar (?r div 10), digitChar (?r mod 10)] = Some ?r"
    using r by (simp add: parseDecimal_two_digits)
  have fmt: "formatTime s = natToString ?m @ '':'' @ [digitChar (?r div 10), digitChar (?r mod 10)]"
    using assms by (rule formatTime_nonneg)
  have "parseTime (formatTime s) = Some (int ?m * 60 + int ?r)"
    by (simp only: fmt parseTime_colon [OF natToString_no_colon] parseDecimal_natToString sec
        option.case)
  also have "int ?m * 60 + int ?r = s"
    using m by simp
  finally show ?thesis
    using fmt ts sec by (simp add: parseDecimal_natToString)
qed

theorem formatTime_witness:
  "(0::int) \<le> 899 \<and> formatTime 899 = ''14:59'' \<and> parseTime (formatTime 899) = Some 899
   \<and> parseTime ''14:59'' = Some 899"
proof -
  have a: "(0::int) \<le> 899"
    by simp
  note parsed =
    formatTime_minutes_colon_seconds [OF a, THEN conjunct2, THEN conjunct2, THEN conjunct2]
  have b: "formatTime 899 = ''14:59''"
    by (rule formatTime_899)
  from parsed have c: "parseTime ''14:59'' = Some 899"
    by (simp only: b)
  from a b parsed c show ?thesis
    by (intro conjI)
qed

end
